theory Spec2Isabelle
  imports Complex_Main "HOL-Library.Word"
begin

section \<open>P2P file transfer: staging registry, discovery loop and socket transfer\<close>

text \<open>
  The development embeds the Python class \<open>P2PFileTransfer\<close> (\<open>windows.py\<close>) and
  \<open>P2PFileTransferMac\<close> (\<open>macos.py\<close>). The Flask routes of the two files are
  textually identical; the socket code differs only in how the user is notified and
  asked, which the model takes as parameters.

  Everything the code reads from its environment is an argument of the model: the
  fresh \<open>uuid4\<close>, the clock, the answer of a dialog, what a socket delivers, and
  whether a file operation of the operating system succeeds.
\<close>

subsection \<open>Data\<close>

type_synonym bytes = "8 word list"

text \<open>The disk: a path holds the bytes of a regular file, or nothing.\<close>

type_synonym filesystem = "string \<rightharpoonup> bytes"

text \<open>An entry of \<open>self.pending_files\<close>, the dict literal of \<open>upload_file\<close>.\<close>

record pending_file =
  pf_id :: string
  pf_name :: string
  pf_path :: string
  pf_size :: nat
  pf_upload_time :: string
  pf_status :: string

text \<open>An entry of \<open>self.transfer_history\<close>, the dict literal of \<open>download_file\<close>.\<close>

record transfer_record =
  tr_file_name :: string
  tr_device :: string
  tr_transfer_time :: string
  tr_status :: string

text \<open>
  A value that \<open>json.loads\<close> yields for a field of a datagram. The discovery code
  compares it with a string, formats it with \<open>str()\<close> and stores it, nothing
  else; a float, a list or a dict is therefore carried by its \<open>str()\<close> text.
\<close>

datatype pyval = PNone | PBool bool | PInt int | PStr string | POther string

text \<open>An entry of \<open>self.devices\<close>, the dict literal of the discovery thread.\<close>

record device =
  dev_name :: pyval
  dev_ip :: pyval
  dev_port :: pyval
  dev_last_seen :: real

text \<open>
  A call of \<open>set\<close> on the progress variable. \<open>Set_fraction sent total_size\<close> is
  \<open>self.progress_var.set((sent / total_size) * 100)\<close>: the source computes the
  argument in floating point, the model keeps the two integers it is computed
  from. \<open>Set_zero\<close> is \<open>self.progress_var.set(0)\<close>.
\<close>

datatype progress_call = Set_fraction nat nat | Set_zero

text \<open>
  The object \<open>self\<close>, with the two things of its environment that the methods
  read and write: the disk, and the home directory that
  \<open>os.path.expanduser('~')\<close> and \<open>Path.home()\<close> yield. \<open>progress_var\<close> is
  \<open>None\<close>, or a Tk variable, given by the calls of \<open>set\<close> made on it so far;
  \<open>root_window\<close> tells whether \<open>self.root\<close> is a window.
\<close>

record app =
  device_name :: string
  running :: bool
  devices :: "string \<rightharpoonup> device"
  pending_files :: "string \<rightharpoonup> pending_file"
  transfer_history :: "transfer_record list"
  progress_var :: "progress_call list option"
  root_window :: bool
  home :: string
  disk :: filesystem

text \<open>
  The two error texts of the routes are Turkish literals; they are kept as
  constructors.
\<close>

datatype error_text = Dosya_bulunamadi | Dosya_secilmedi

datatype response =
    Json_error error_text nat
  | Upload_success string
  | Remove_success
  | File_body bytes string
  | Server_error

subsection \<open>Paths\<close>

text \<open>
  \<open>os.path.join\<close> as \<open>posixpath\<close> defines it for two components: an absolute
  second component replaces the first, otherwise the two are joined by one
  separator. (\<open>ntpath.join\<close> has other separators and drive letters; it is
  likewise a function of its arguments only.)
\<close>

definition path_join :: "string \<Rightarrow> string \<Rightarrow> string" where
  "path_join a b =
     (if b \<noteq> [] \<and> hd b = CHR ''/'' then b
      else if a = [] \<or> last a = CHR ''/'' then a @ b
      else a @ ''/'' @ b)"

text \<open>\<open>os.path.join(os.path.expanduser('~'), 'Desktop', file.filename)\<close>\<close>

definition temp_path :: "string \<Rightarrow> string \<Rightarrow> string" where
  "temp_path h filename = path_join (path_join h ''Desktop'') filename"

text \<open>
  The string of a \<open>PurePosixPath\<close>: the root (\<open>//\<close> for exactly two leading
  separators, \<open>/\<close> for one or more than two), then the components between
  separators, empty ones and \<open>.\<close> left out, joined by single separators; \<open>.\<close>
  when nothing is left.
\<close>

fun split_on :: "char \<Rightarrow> string \<Rightarrow> string list" where
  "split_on c [] = [[]]"
| "split_on c (x # xs) =
     (if x = c then [] # split_on c xs
      else (case split_on c xs of [] \<Rightarrow> [[x]] | w # ws \<Rightarrow> (x # w) # ws))"

fun join_with :: "char \<Rightarrow> string list \<Rightarrow> string" where
  "join_with c [] = []"
| "join_with c [w] = w"
| "join_with c (w # v # ws) = w @ c # join_with c (v # ws)"

definition pure_posix_str :: "string \<Rightarrow> string" where
  "pure_posix_str p =
     (let rt = (if take 2 p = ''//'' \<and> take 3 p \<noteq> ''///'' then ''//''
                else if take 1 p = ''/'' then ''/'' else []);
          parts = filter (\<lambda>w. w \<noteq> [] \<and> w \<noteq> ''.'') (split_on CHR ''/'' p);
          str = rt @ join_with CHR ''/'' parts
      in if str = [] then ''.'' else str)"

text \<open>
  \<open>Path.home() / "Downloads" / filename\<close> as a string: \<open>pathlib\<close> joins the
  segments as \<open>os.path.join\<close> does and normalises the result. (This is the
  POSIX flavour; under Windows the separator is the backslash and a drive letter
  belongs to the root.)
\<close>

definition downloads_file :: "string \<Rightarrow> string \<Rightarrow> string" where
  "downloads_file h name = pure_posix_str (path_join (path_join h ''Downloads'') name)"

subsection \<open>The routes\<close>

text \<open>
  \<open>POST /api/upload\<close>. \<open>req_files\<close> is \<open>request.files\<close> (field name to filename
  and content), \<open>file_id\<close> the value of \<open>str(uuid.uuid4())\<close>, \<open>now\<close> the formatted
  clock. \<open>save_ok\<close> tells whether \<open>file.save\<close> could write the file; when it
  raises, Flask answers 500 and the route has not reached the assignment (the
  model leaves the disk as it was then).
\<close>

definition upload_file ::
  "app \<Rightarrow> (string \<rightharpoonup> string \<times> bytes) \<Rightarrow> string \<Rightarrow> string \<Rightarrow> bool \<Rightarrow> app \<times> response" where
  "upload_file s req_files file_id now save_ok =
     (case req_files ''file'' of
        None \<Rightarrow> (s, Json_error Dosya_bulunamadi 400)
      | Some (filename, content) \<Rightarrow>
          if filename = [] then (s, Json_error Dosya_secilmedi 400)
          else if \<not> save_ok then (s, Server_error)
          else
            let tp = temp_path (home s) filename;
                d = (disk s)(tp \<mapsto> content);
                entry = \<lparr>pf_id = file_id, pf_name = filename, pf_path = tp,
                         pf_size = length (the (d tp)), pf_upload_time = now,
                         pf_status = ''pending''\<rparr>
            in (s\<lparr>disk := d, pending_files := (pending_files s)(file_id \<mapsto> entry)\<rparr>,
                Upload_success file_id))"

text \<open>
  \<open>flask.send_file(path, as_attachment=True, download_name=name)\<close>: the body is
  what the disk holds at the path; with no file there it raises and Flask
  answers 500.
\<close>

definition send_file_response :: "filesystem \<Rightarrow> string \<Rightarrow> string \<Rightarrow> response" where
  "send_file_response d path name =
     (case d path of None \<Rightarrow> Server_error | Some b \<Rightarrow> File_body b name)"

text \<open>\<open>GET /api/download/<file_id>\<close>\<close>

definition download_file :: "app \<Rightarrow> string \<Rightarrow> string \<Rightarrow> app \<times> response" where
  "download_file s file_id now =
     (case pending_files s file_id of
        None \<Rightarrow> (s, Json_error Dosya_bulunamadi 404)
      | Some file_info \<Rightarrow>
          let s1 = s\<lparr>transfer_history := transfer_history s @
                      [\<lparr>tr_file_name = pf_name file_info, tr_device = device_name s,
                        tr_transfer_time = now, tr_status = ''completed''\<rparr>]\<rparr>;
              s2 = s1\<lparr>pending_files := (pending_files s1)(file_id := None)\<rparr>
          in (s2, send_file_response (disk s2) (pf_path file_info) (pf_name file_info)))"

text \<open>
  \<open>DELETE /api/remove/<file_id>\<close>. \<open>remove_ok\<close> tells whether \<open>os.remove\<close>
  succeeds when it is called; when it raises, the entry has not been deleted yet.
\<close>

definition remove_file :: "app \<Rightarrow> string \<Rightarrow> bool \<Rightarrow> app \<times> response" where
  "remove_file s file_id remove_ok =
     (case pending_files s file_id of
        None \<Rightarrow> (s, Json_error Dosya_bulunamadi 404)
      | Some file_info \<Rightarrow>
          if disk s (pf_path file_info) \<noteq> None \<and> \<not> remove_ok then (s, Server_error)
          else
            let s1 = s\<lparr>disk := (disk s)(pf_path file_info := None)\<rparr>
            in (s1\<lparr>pending_files := (pending_files s1)(file_id := None)\<rparr>, Remove_success))"

text \<open>The object as \<open>__init__\<close> leaves it, for a host name, a home and a disk.\<close>

definition init_app :: "string \<Rightarrow> string \<Rightarrow> filesystem \<Rightarrow> app" where
  "init_app dn h d =
     \<lparr>device_name = dn, running = True, devices = Map.empty, pending_files = Map.empty,
      transfer_history = [], progress_var = None, root_window = False, home = h, disk = d\<rparr>"

subsection \<open>Discovery\<close>

text \<open>The exceptions that the socket code meets; all are subclasses of \<open>Exception\<close>.\<close>

datatype exn =
    Decode_error
  | Type_error
  | Key_error string
  | Attribute_error
  | OS_error

text \<open>\<open>str()\<close> of an integer: the decimal digits, with a sign when negative.\<close>

definition digit_char :: "nat \<Rightarrow> char" where
  "digit_char d = ''0123456789'' ! d"

function str_nat :: "nat \<Rightarrow> string" where
  "str_nat n =
     (if n < 10 then [digit_char n]
      else str_nat (n div 10) @ [digit_char (n mod 10)])"
  by pat_completeness auto
termination
  by (relation "measure (\<lambda>n. n)") auto

declare str_nat.simps [simp del]

definition str_int :: "int \<Rightarrow> string" where
  "str_int i = (if i < 0 then CHR ''-'' # str_nat (nat (- i)) else str_nat (nat i))"

text \<open>What an f-string writes for a value.\<close>

fun py_str :: "pyval \<Rightarrow> string" where
  "py_str PNone = ''None''"
| "py_str (PBool b) = (if b then ''True'' else ''False'')"
| "py_str (PInt i) = str_int i"
| "py_str (PStr s) = s"
| "py_str (POther r) = r"

text \<open>
  What \<open>json.loads(data.decode())\<close> makes of a datagram: it raises, or yields a
  value that is not a dict, or a dict.
\<close>

datatype payload = Not_json | Not_object | Object "string \<rightharpoonup> pyval"

type_synonym address = "string \<times> nat"

text \<open>
  What one pass of the loop gets from outside: \<open>recvfrom\<close> raises or returns a
  datagram and its sender, \<open>get_local_ip\<close> returns an address, \<open>time.time()\<close>
  a number, and \<open>sendto\<close> succeeds or raises.
\<close>

datatype received = Recv_error | Datagram payload address

record env =
  incoming :: received
  local_ip :: string
  clock :: real
  sendto_ok :: bool

text \<open>
  What one pass does that can be seen from outside. A reply is the dict handed to
  \<open>json.dumps\<close>, its keys in the order of the literal.
\<close>

datatype outcome =
    Replied "(string \<times> pyval) list" address
  | Upserted string
  | Ignored
  | Printed exn
  | Silenced exn

text \<open>\<open>message[key]\<close>\<close>

definition subscript :: "(string \<rightharpoonup> pyval) \<Rightarrow> string \<Rightarrow> exn + pyval" where
  "subscript message key = (case message key of None \<Rightarrow> Inl (Key_error key) | Some v \<Rightarrow> Inr v)"

text \<open>
  \<open>update_device_list\<close> starts with \<open>if self.device_listbox:\<close>, and
  \<open>device_listbox\<close> is \<open>None\<close> from \<open>__init__\<close> on: the call changes nothing.
\<close>

definition update_device_list :: "app \<Rightarrow> app" where
  "update_device_list s = s"

text \<open>
  The body of the inner \<open>try\<close> of \<open>discovery_thread\<close>. The lookups are in the
  order in which Python evaluates them: \<open>ip\<close> and \<open>port\<close> for the key, then
  \<open>device_name\<close>, \<open>ip\<close> and \<open>port\<close> for the entry, and the assignment last.
\<close>

definition discovery_body :: "app \<Rightarrow> env \<Rightarrow> exn + (app \<times> outcome)" where
  "discovery_body s e =
     (case incoming e of
        Recv_error \<Rightarrow> Inl OS_error
      | Datagram Not_json addr \<Rightarrow> Inl Decode_error
      | Datagram Not_object addr \<Rightarrow> Inl Type_error
      | Datagram (Object message) addr \<Rightarrow>
          (case subscript message ''type'' of
             Inl x \<Rightarrow> Inl x
           | Inr ty \<Rightarrow>
               if ty = PStr ''discovery'' then
                 (let response = [(''type'', PStr ''response''),
                                  (''device_name'', PStr (device_name s)),
                                  (''ip'', PStr (local_ip e))]
                  in if sendto_ok e then Inr (s, Replied response addr) else Inl OS_error)
               else if ty = PStr ''response'' then
                 (case subscript message ''ip'' of
                    Inl x \<Rightarrow> Inl x
                  | Inr ip \<Rightarrow>
                      (case subscript message ''port'' of
                         Inl x \<Rightarrow> Inl x
                       | Inr port \<Rightarrow>
                           (let device_id = py_str ip @ '':'' @ py_str port
                            in case subscript message ''device_name'' of
                                 Inl x \<Rightarrow> Inl x
                               | Inr name \<Rightarrow>
                                   Inr (update_device_list
                                          (s\<lparr>devices := (devices s)(device_id \<mapsto>
                                               \<lparr>dev_name = name, dev_ip = ip, dev_port = port,
                                                dev_last_seen = clock e\<rparr>)\<rparr>),
                                        Upserted device_id))))
               else Inr (s, Ignored)))"

text \<open>
  One pass of the loop: the body under \<open>except Exception as e\<close>, whose handler
  prints when \<open>self.running\<close> and raises nothing. The body raises before it
  assigns, so a pass that raised leaves the object as it was.
\<close>

definition discovery_iteration :: "app \<Rightarrow> env \<Rightarrow> exn + (app \<times> outcome)" where
  "discovery_iteration s e =
     (case discovery_body s e of
        Inl x \<Rightarrow> Inr (s, if running s then Printed x else Silenced x)
      | Inr r \<Rightarrow> Inr r)"

text \<open>
  \<open>while self.running:\<close> over what the environment delivers, pass by pass;
  when the list is used up the source waits in \<open>recvfrom\<close>. An exception that
  left a pass would end the loop; it is the \<open>Inl\<close> result.
\<close>

fun discovery_loop :: "app \<Rightarrow> env list \<Rightarrow> exn + (app \<times> outcome list)" where
  "discovery_loop s [] = Inr (s, [])"
| "discovery_loop s (e # es) =
     (if \<not> running s then Inr (s, [])
      else case discovery_iteration s e of
             Inl x \<Rightarrow> Inl x
           | Inr (s', out) \<Rightarrow>
               (case discovery_loop s' es of
                  Inl x \<Rightarrow> Inl x
                | Inr (s'', outs) \<Rightarrow> Inr (s'', out # outs)))"

subsection \<open>Receiving a file\<close>

text \<open>
  The header of a transfer as the handler reads it from \<open>json.loads\<close>: the model
  covers headers whose \<open>filename\<close> is a string and whose \<open>filesize\<close> is an
  integer. A first frame that is not JSON, not a dict or lacks a key is given as
  the exception that the first four statements of the handler raise.
\<close>

record transfer_header =
  filename :: string
  filesize :: int

text \<open>What is handed to \<open>send\<close>: the encoded header, a piece of a file, or the literal \<open>REJECTED\<close>.\<close>

datatype frame = Header transfer_header | Chunk bytes | Rejected

text \<open>
  What the user is shown or asked, and what is printed. The two platforms differ in
  the means (a message box, a notification, \<open>print\<close>), not in the occasion.
\<close>

datatype ui_event =
    Incoming_file string int
  | File_received string
  | Transfer_error exn
  | File_not_found
  | File_sent
  | Send_failed exn

text \<open>
  The receiving side of a connection: the pieces in which the network delivers
  the bytes, then the orderly close by the peer. \<open>recv conn n\<close> returns at most
  \<open>n\<close> bytes of the next piece, and the empty string once nothing is left.
\<close>

fun recv :: "bytes list \<Rightarrow> nat \<Rightarrow> bytes \<times> bytes list" where
  "recv [] n = ([], [])"
| "recv (seg # segs) n =
     (if seg = [] then recv segs n
      else if length seg \<le> n then (seg, segs)
      else (take n seg, drop n seg # segs))"

text \<open>
  The loop \<open>while received < filesize\<close> of \<open>handle_file_transfer\<close>; \<open>written\<close>
  is what \<open>f.write\<close> has put into the file so far. It returns \<open>received\<close> and
  the content of the file.
\<close>

function receive_body :: "bytes list \<Rightarrow> int \<Rightarrow> int \<Rightarrow> bytes \<Rightarrow> int \<times> bytes" where
  "receive_body conn fsize received written =
     (if received < fsize then
        (let chunk = fst (recv conn (nat (min 8192 (fsize - received))))
         in if chunk = [] then (received, written)
            else receive_body (snd (recv conn (nat (min 8192 (fsize - received))))) fsize
                   (received + int (length chunk)) (written @ chunk))
      else (received, written))"
  by pat_completeness auto
termination
  by (relation "measure (\<lambda>(conn, fsize, received, written). nat (fsize - received))") auto

declare receive_body.simps [simp del]

record handled =
  after :: app
  shown :: "ui_event list"
  replied :: "frame list"
  conn_closed :: bool

text \<open>
  \<open>handle_file_transfer\<close>. \<open>header\<close> is what the first four statements yield,
  \<open>result\<close> the answer of \<open>messagebox.askyesno\<close>, \<open>open_ok\<close> whether
  \<open>open(file_path, 'wb')\<close> succeeds, \<open>conn\<close> what the peer delivers after the
  header. The statement after the \<open>with\<close> block reports the reception; no
  statement compares \<open>received\<close> with \<open>filesize\<close>.
\<close>

definition handle_file_transfer ::
  "app \<Rightarrow> exn + transfer_header \<Rightarrow> bool \<Rightarrow> bool \<Rightarrow> bytes list \<Rightarrow> handled" where
  "handle_file_transfer s header result open_ok conn =
     (case header of
        Inl x \<Rightarrow> \<lparr>after = s, shown = [Transfer_error x], replied = [], conn_closed = True\<rparr>
      | Inr h \<Rightarrow>
          if result then
            (let file_path = downloads_file (home s) (filename h)
             in if \<not> open_ok then
                  \<lparr>after = s,
                   shown = [Incoming_file (filename h) (filesize h), Transfer_error OS_error],
                   replied = [], conn_closed = True\<rparr>
                else
                  (let content = snd (receive_body conn (filesize h) 0 [])
                   in \<lparr>after = s\<lparr>disk := (disk s)(file_path \<mapsto> content)\<rparr>,
                       shown = [Incoming_file (filename h) (filesize h), File_received file_path],
                       replied = [], conn_closed = True\<rparr>))
          else
            \<lparr>after = s, shown = [Incoming_file (filename h) (filesize h)],
             replied = [Rejected], conn_closed = True\<rparr>)"

text \<open>\<open>macos.py\<close> notifies instead of asking: \<open>result = True  # Auto accept\<close>.\<close>

definition handle_file_transfer_mac ::
  "app \<Rightarrow> exn + transfer_header \<Rightarrow> bool \<Rightarrow> bytes list \<Rightarrow> handled" where
  "handle_file_transfer_mac s header open_ok conn = handle_file_transfer s header True open_ok conn"

subsection \<open>Sending a file\<close>

datatype platform = Windows | MacOS

text \<open>
  What a call of \<open>send\<close> does: it takes its whole argument, or it takes only the
  first \<open>k\<close> bytes and returns \<open>k\<close>, or it raises. The code does not look at
  the number that \<open>send\<close> returns.
\<close>

datatype send_outcome = Full | Short nat | Raise

text \<open>What has gone out for one call of \<open>send\<close>: its whole argument, or its first \<open>k\<close> bytes.\<close>

datatype delivery = Whole frame | Prefix frame nat

text \<open>
  The sending side of a connection: what has gone out, call by call, and what the
  calls to come will do (once the list is used up, every call takes its whole
  argument).
\<close>

record out_socket =
  wire :: "delivery list"
  schedule :: "send_outcome list"

definition sock_send :: "out_socket \<Rightarrow> frame \<Rightarrow> exn + out_socket" where
  "sock_send sock fr =
     (case schedule sock of
        [] \<Rightarrow> Inr (sock\<lparr>wire := wire sock @ [Whole fr]\<rparr>)
      | Full # outs \<Rightarrow> Inr (sock\<lparr>wire := wire sock @ [Whole fr], schedule := outs\<rparr>)
      | Short k # outs \<Rightarrow> Inr (sock\<lparr>wire := wire sock @ [Prefix fr k], schedule := outs\<rparr>)
      | Raise # outs \<Rightarrow> Inl OS_error)"

text \<open>
  The loop \<open>while sent < total_size\<close> of \<open>send_file\<close>. \<open>unread\<close> is the part of
  the file that \<open>f.read\<close> has not returned yet, \<open>pv\<close> tells whether
  \<open>self.progress_var\<close> is set, \<open>rw\<close> whether \<open>self.root\<close> is; \<open>prog\<close> collects
  the calls of \<open>progress_var.set\<close>. \<open>windows.py\<close> calls
  \<open>self.root.update_idletasks()\<close> unguarded, \<open>macos.py\<close> under \<open>if self.root:\<close>.
  \<open>sent\<close> grows by the length of the chunk, whatever \<open>send\<close> has taken of it.
\<close>

function send_body ::
  "platform \<Rightarrow> bool \<Rightarrow> bool \<Rightarrow> bytes \<Rightarrow> nat \<Rightarrow> nat \<Rightarrow> out_socket \<Rightarrow> progress_call list \<Rightarrow>
     out_socket \<times> progress_call list \<times> exn option" where
  "send_body pf pv rw unread sent total_size sock prog =
     (if sent < total_size then
        (if take 8192 unread = [] then (sock, prog, None)
         else case sock_send sock (Chunk (take 8192 unread)) of
                Inl x \<Rightarrow> (sock, prog, Some x)
              | Inr sock' \<Rightarrow>
                  if pv then
                    (if pf = Windows \<and> \<not> rw then
                       (sock', prog @ [Set_fraction (sent + length (take 8192 unread)) total_size],
                        Some Attribute_error)
                     else send_body pf pv rw (drop 8192 unread) (sent + length (take 8192 unread))
                            total_size sock'
                            (prog @ [Set_fraction (sent + length (take 8192 unread)) total_size]))
                  else send_body pf pv rw (drop 8192 unread) (sent + length (take 8192 unread))
                         total_size sock' prog)
      else (sock, prog, None))"
  by pat_completeness auto
termination
  by (relation "measure (\<lambda>(pf, pv, rw, unread, sent, total_size, sock, prog). length unread)") auto

declare send_body.simps [simp del]

text \<open>
  What \<open>send_file\<close> gets from outside: whether \<open>connect\<close> succeeds, whether
  \<open>open(file_path, 'rb')\<close> succeeds on a regular file, what the calls of \<open>send\<close>
  do, and what is at the path when the disk holds no regular file there: nothing
  (\<open>None\<close>), or a directory whose \<open>stat\<close> reports the given size, which exists
  and cannot be opened.
\<close>

record send_env =
  connect_ok :: bool
  open_ok :: bool
  send_schedule :: "send_outcome list"
  directory :: "nat option"

text \<open>What the \<open>try\<close> block of \<open>send_file\<close> has done when it is left.\<close>

record attempt =
  a_ui :: "ui_event list"
  a_socket :: bool
  a_sock :: out_socket
  a_progress :: "progress_call list"
  a_raised :: "exn option"

text \<open>
  What \<open>Path(file_path)\<close> is to the code: \<open>None\<close> when \<open>exists()\<close> is false,
  else \<open>stat().st_size\<close> and what \<open>open\<close> yields, the content or a failure.
\<close>

definition path_status :: "app \<Rightarrow> string \<Rightarrow> send_env \<Rightarrow> (nat \<times> bytes option) option" where
  "path_status s file_path env =
     (case disk s file_path of
        Some content \<Rightarrow> Some (length content, if open_ok env then Some content else None)
      | None \<Rightarrow> (case directory env of None \<Rightarrow> None | Some n \<Rightarrow> Some (n, None)))"

text \<open>
  The \<open>try\<close> block. \<open>name\<close> is \<open>file_path.name\<close>, the last component of the
  path as \<open>pathlib\<close> computes it for the platform. \<open>connect_ok\<close> stands for
  \<open>connect((target_device['ip'], target_device['port']))\<close>. A missing file
  returns before a socket exists; the header is sent before the file is opened.
\<close>

definition send_try :: "platform \<Rightarrow> app \<Rightarrow> string \<Rightarrow> string \<Rightarrow> send_env \<Rightarrow> attempt" where
  "send_try pf s file_path name env =
     (let sock0 = \<lparr>wire = [], schedule = send_schedule env\<rparr>
      in case path_status s file_path env of
           None \<Rightarrow>
             \<lparr>a_ui = (if pf = Windows \<or> root_window s then [File_not_found] else []),
              a_socket = False, a_sock = sock0, a_progress = [], a_raised = None\<rparr>
         | Some (st_size, opened) \<Rightarrow>
             if \<not> connect_ok env then
               \<lparr>a_ui = [], a_socket = True, a_sock = sock0, a_progress = [],
                a_raised = Some OS_error\<rparr>
             else
               (case sock_send sock0 (Header \<lparr>filename = name, filesize = int st_size\<rparr>) of
                  Inl x \<Rightarrow>
                    \<lparr>a_ui = [], a_socket = True, a_sock = sock0, a_progress = [],
                     a_raised = Some x\<rparr>
                | Inr sock \<Rightarrow>
                    (case opened of
                       None \<Rightarrow>
                         \<lparr>a_ui = [], a_socket = True, a_sock = sock, a_progress = [],
                          a_raised = Some OS_error\<rparr>
                     | Some content \<Rightarrow>
                         (case send_body pf (progress_var s \<noteq> None) (root_window s) content 0
                                 st_size sock [] of
                            (sock', prog, None) \<Rightarrow>
                              \<lparr>a_ui = [File_sent], a_socket = True, a_sock = sock',
                               a_progress = prog, a_raised = None\<rparr>
                          | (sock', prog, Some x) \<Rightarrow>
                              \<lparr>a_ui = [], a_socket = True, a_sock = sock', a_progress = prog,
                               a_raised = Some x\<rparr>))))"

record send_result =
  s_ui :: "ui_event list"
  s_socket :: bool
  s_wire :: "delivery list"
  s_closed :: bool
  s_progress :: "progress_call list"

text \<open>
  \<open>send_file\<close>: the \<open>try\<close> block, the handler that shows the exception, and the
  \<open>finally\<close> block that closes the socket \<open>if 'client_socket' in locals()\<close> and
  resets the progress variable if there is one. \<open>s_progress\<close> holds the calls
  of \<open>set\<close> that this run has made.
\<close>

definition send_file ::
  "platform \<Rightarrow> app \<Rightarrow> string \<Rightarrow> string \<Rightarrow> send_env \<Rightarrow> app \<times> send_result" where
  "send_file pf s file_path name env =
     (let a = send_try pf s file_path name env;
          calls = a_progress a @ (if progress_var s \<noteq> None then [Set_zero] else [])
      in (s\<lparr>progress_var := (case progress_var s of
                                None \<Rightarrow> None
                              | Some before \<Rightarrow> Some (before @ calls))\<rparr>,
          \<lparr>s_ui = a_ui a @ (case a_raised a of None \<Rightarrow> [] | Some x \<Rightarrow> [Send_failed x]),
           s_socket = a_socket a,
           s_wire = wire (a_sock a),
           s_closed = a_socket a,
           s_progress = calls\<rparr>))"

subsection \<open>Notions of the specification\<close>

text \<open>
  The key and the Device that a datagram carries when it is a response with all
  its fields, as the specification describes the upsert: the key is
  \<open>"ip:port"\<close>, the Device holds the name, the address, the port and the time of
  processing.
\<close>

definition response_entry :: "env \<Rightarrow> (string \<times> device) option" where
  "response_entry e =
     (case incoming e of
        Datagram (Object m) addr \<Rightarrow>
          (if m ''type'' = Some (PStr ''response'') then
             (case (m ''ip'', m ''port'', m ''device_name'') of
                (Some ip, Some port, Some name) \<Rightarrow>
                  Some (py_str ip @ '':'' @ py_str port,
                        \<lparr>dev_name = name, dev_ip = ip, dev_port = port,
                         dev_last_seen = clock e\<rparr>)
              | _ \<Rightarrow> None)
           else None)
      | _ \<Rightarrow> None)"

text \<open>The Device of the most recently processed response with key \<open>k\<close>, if there is one.\<close>

definition latest :: "string \<Rightarrow> env list \<Rightarrow> device option" where
  "latest k es =
     (case filter (\<lambda>(k', d). k' = k) (List.map_filter response_entry es) of
        [] \<Rightarrow> None
      | r # rs \<Rightarrow> Some (snd (last (r # rs))))"



text \<open>
  The calls that report the fraction sent after each piece: \<open>n\<close> bytes were
  sent before the first of them, the file has \<open>total_size\<close> bytes.
\<close>

fun progress_calls :: "nat \<Rightarrow> nat \<Rightarrow> bytes list \<Rightarrow> progress_call list" where
  "progress_calls n total_size [] = []"
| "progress_calls n total_size (c # cs) =
     Set_fraction (n + length c) total_size # progress_calls (n + length c) total_size cs"

subsection \<open>States and inputs of the examples\<close>

definition fresh_app :: app where
  "fresh_app = init_app ''host'' ''/home/u'' Map.empty"

definition hello :: bytes where
  "hello = [104, 101, 108, 108, 111, 32, 119, 111, 114, 108, 100]"

text \<open>One upload of \<open>test.txt\<close> with eleven bytes.\<close>

definition one_upload :: app where
  "one_upload =
     fst (upload_file fresh_app [''file'' \<mapsto> (''test.txt'', hello)] ''id1''
            ''2024-01-01 10:00:00'' True)"

text \<open>A second upload under the same filename, with two bytes.\<close>

definition two_uploads :: app where
  "two_uploads =
     fst (upload_file one_upload [''file'' \<mapsto> (''test.txt'', [1, 2])] ''id2''
            ''2024-01-01 10:00:05'' True)"

text \<open>Then \<open>DELETE /api/remove/id1\<close>.\<close>

definition first_removed :: app where
  "first_removed = fst (remove_file two_uploads ''id1'' True)"

text \<open>Datagrams: a discovery request, two responses of one peer, and three malformed ones.\<close>

definition peer_addr :: address where
  "peer_addr = (''192.168.1.7'', 50000)"

definition on_datagram :: "payload \<Rightarrow> real \<Rightarrow> env" where
  "on_datagram p t = \<lparr>incoming = Datagram p peer_addr, local_ip = ''192.168.1.5'', clock = t,
                       sendto_ok = True\<rparr>"


definition response_one :: env where
  "response_one =
     on_datagram (Object [''type'' \<mapsto> PStr ''response'', ''device_name'' \<mapsto> PStr ''peer'',
                          ''ip'' \<mapsto> PStr ''192.168.1.7'', ''port'' \<mapsto> PInt 5000]) 2"

definition response_two :: env where
  "response_two =
     on_datagram (Object [''type'' \<mapsto> PStr ''response'', ''device_name'' \<mapsto> PStr ''renamed'',
                          ''ip'' \<mapsto> PStr ''192.168.1.7'', ''port'' \<mapsto> PInt 5000]) 3"

definition not_json :: env where
  "not_json = on_datagram Not_json 4"

definition no_type :: env where
  "no_type = on_datagram (Object [''device_name'' \<mapsto> PStr ''peer'']) 5"

definition no_port :: env where
  "no_port =
     on_datagram (Object [''type'' \<mapsto> PStr ''response'', ''device_name'' \<mapsto> PStr ''peer'',
                          ''ip'' \<mapsto> PStr ''192.168.1.7'']) 6"

text \<open>A sender with a file of three bytes, without and with a progress variable.\<close>

definition sender_app :: app where
  "sender_app = init_app ''host'' ''/home/u'' [''/home/u/a.txt'' \<mapsto> [1, 2, 3]]"


text \<open>A sender on Windows with a progress variable and no root window.\<close>

definition sender_without_window :: app where
  "sender_without_window = sender_app\<lparr>progress_var := Some []\<rparr>"

text \<open>Environments of a send: all goes well; the connect fails; the second \<open>send\<close> is short.\<close>

definition calm :: send_env where
  "calm = \<lparr>connect_ok = True, open_ok = True, send_schedule = [], directory = None\<rparr>"


definition short_second_send :: send_env where
  "short_second_send = calm\<lparr>send_schedule := [Full, Short 1]\<rparr>"

text \<open>The object after the two responses.\<close>

definition peer_known :: app where
  "peer_known =
     fresh_app\<lparr>devices := [''192.168.1.7:5000'' \<mapsto>
        \<lparr>dev_name = PStr ''renamed'', dev_ip = PStr ''192.168.1.7'', dev_port = PInt 5000,
         dev_last_seen = 3\<rparr>]\<rparr>"

section \<open>The staging registry\<close>

subsection \<open>What the routes keep\<close>

lemma upload_file_keeps:
  "home (fst (upload_file s req_files file_id now save_ok)) = home s \<and>
   transfer_history (fst (upload_file s req_files file_id now save_ok)) = transfer_history s"
  by (simp add: upload_file_def Let_def split: option.splits prod.splits)

lemma remove_file_keeps:
  "home (fst (remove_file s file_id remove_ok)) = home s"
  by (simp add: remove_file_def Let_def split: option.splits)

lemma one_upload_result:
  "upload_file fresh_app [''file'' \<mapsto> (''test.txt'', hello)] ''id1'' ''2024-01-01 10:00:00'' True =
     (one_upload, Upload_success ''id1'')"
  by (simp add: one_upload_def upload_file_def Let_def)

lemma two_uploads_result:
  "upload_file one_upload [''file'' \<mapsto> (''test.txt'', [1, 2])] ''id2'' ''2024-01-01 10:00:05'' True =
     (two_uploads, Upload_success ''id2'')"
  by (simp add: two_uploads_def upload_file_def Let_def)

lemma one_upload_entry:
  "pending_files one_upload ''id1'' =
     Some \<lparr>pf_id = ''id1'', pf_name = ''test.txt'', pf_path = ''/home/u/Desktop/test.txt'',
           pf_size = length hello, pf_upload_time = ''2024-01-01 10:00:00'',
           pf_status = ''pending''\<rparr>"
  by (simp add: one_upload_def upload_file_def Let_def fresh_app_def init_app_def temp_path_def
        path_join_def)

lemma one_upload_disk: "disk one_upload ''/home/u/Desktop/test.txt'' = Some hello"
  by (simp add: one_upload_def upload_file_def Let_def fresh_app_def init_app_def temp_path_def
        path_join_def)

lemma one_upload_history: "transfer_history one_upload = []"
  by (simp add: one_upload_def upload_file_keeps fresh_app_def init_app_def)

lemma two_uploads_entries:
  "pending_files two_uploads ''id1'' = pending_files one_upload ''id1'' \<and>
   pending_files two_uploads ''id2'' =
     Some \<lparr>pf_id = ''id2'', pf_name = ''test.txt'', pf_path = ''/home/u/Desktop/test.txt'',
           pf_size = 2, pf_upload_time = ''2024-01-01 10:00:05'', pf_status = ''pending''\<rparr>"
  by (simp add: two_uploads_def upload_file_def Let_def one_upload_def fresh_app_def init_app_def
        temp_path_def path_join_def)

lemma first_removed_facts:
  "pending_files first_removed ''id1'' = None \<and>
   pending_files first_removed ''id2'' = pending_files two_uploads ''id2'' \<and>
   disk first_removed ''/home/u/Desktop/test.txt'' = None \<and>
   transfer_history first_removed = [] \<and>
   device_name first_removed = ''host''"
  by (simp add: first_removed_def remove_file_def Let_def two_uploads_entries one_upload_entry
        two_uploads_def one_upload_def upload_file_def fresh_app_def init_app_def)

subsection \<open>Upload\<close>

text \<open>
  C4. \<open>POST /api/upload\<close> answers 400 exactly when the field \<open>file\<close> is missing or
  its filename is empty, and then changes nothing: no pending entry, nothing on
  disk. When it answers success, the id in the answer is the fresh id, the
  pending table is the old one with one entry put under that id, the entry names
  the file, and its size is the number of bytes that the disk holds at its
  storage path, which are the uploaded bytes.
\<close>

theorem upload_file_contract:
  "upload_file s req_files file_id now save_ok = (s', r) \<Longrightarrow>
     ((\<exists>e. r = Json_error e 400) \<longleftrightarrow>
        (req_files ''file'' = None \<or> (\<exists>c. req_files ''file'' = Some ([], c)))) \<and>
     ((\<exists>e. r = Json_error e 400) \<longrightarrow> s' = s) \<and>
     (\<forall>fid. r = Upload_success fid \<longrightarrow>
        fid = file_id \<and>
        (\<exists>name content entry.
           req_files ''file'' = Some (name, content) \<and> name \<noteq> [] \<and>
           pending_files s' = (pending_files s)(fid \<mapsto> entry) \<and>
           pf_id entry = fid \<and> pf_name entry = name \<and> pf_status entry = ''pending'' \<and>
           disk s' (pf_path entry) = Some content \<and>
           pf_size entry = length content))"
  by (auto simp: upload_file_def Let_def split: option.splits prod.splits if_splits)

theorem upload_file_contract_witness:
  "upload_file fresh_app Map.empty ''id0'' ''2024-01-01 09:59:00'' True =
     (fresh_app, Json_error Dosya_bulunamadi 400) \<and>
   upload_file fresh_app [''file'' \<mapsto> (''test.txt'', hello)] ''id1'' ''2024-01-01 10:00:00'' True =
     (one_upload, Upload_success ''id1'') \<and>
   (\<exists>entry. pending_files one_upload = (pending_files fresh_app)(''id1'' \<mapsto> entry) \<and>
      disk one_upload (pf_path entry) = Some hello \<and> pf_size entry = 11)"
proof -
  have a: "upload_file fresh_app Map.empty ''id0'' ''2024-01-01 09:59:00'' True =
     (fresh_app, Json_error Dosya_bulunamadi 400)"
    by (simp add: upload_file_def)
  have h: "length hello = 11" by (simp add: hello_def)
  show ?thesis
    using a one_upload_result h upload_file_contract [OF a]
      upload_file_contract [OF one_upload_result]
    by auto
qed

text \<open>
  C9. The storage path of an entry is computed from the home directory and the
  filename and from nothing else. Two successful uploads with the same filename
  and different ids leave two entries with the same storage path; after the
  second upload the disk holds the second content there, where it held the first
  content before.
\<close>

theorem upload_same_filename_shares_path:
  "upload_file s req1 id1 t1 ok1 = (s1, Upload_success id1) \<Longrightarrow>
   upload_file s1 req2 id2 t2 ok2 = (s2, Upload_success id2) \<Longrightarrow>
   req1 ''file'' = Some (name, c1) \<Longrightarrow> req2 ''file'' = Some (name, c2) \<Longrightarrow> id1 \<noteq> id2 \<Longrightarrow>
   \<exists>e1 e2. pending_files s2 id1 = Some e1 \<and> pending_files s2 id2 = Some e2 \<and>
     pf_path e1 = temp_path (home s) name \<and> pf_path e2 = temp_path (home s) name \<and>
     disk s1 (pf_path e1) = Some c1 \<and> disk s2 (pf_path e1) = Some c2"
  by (auto simp: upload_file_def Let_def split: option.splits prod.splits if_splits)

theorem upload_same_filename_shares_path_witness:
  "(\<exists>e1 e2. pending_files two_uploads ''id1'' = Some e1 \<and>
      pending_files two_uploads ''id2'' = Some e2 \<and>
      pf_path e1 = ''/home/u/Desktop/test.txt'' \<and> pf_path e2 = ''/home/u/Desktop/test.txt'' \<and>
      disk one_upload (pf_path e1) = Some hello \<and> disk two_uploads (pf_path e1) = Some [1, 2])"
proof -
  have d: "''id1'' \<noteq> ''id2''" by simp
  have p: "temp_path (home fresh_app) ''test.txt'' = ''/home/u/Desktop/test.txt''"
    by (simp add: temp_path_def path_join_def fresh_app_def init_app_def)
  show ?thesis
    using upload_same_filename_shares_path [OF one_upload_result two_uploads_result _ _ d,
        of "''test.txt''" hello "[1, 2]"] p
    by simp
qed

subsection \<open>Download\<close>

text \<open>
  What \<open>download_file\<close> does, case by case: the record is appended and the entry
  deleted before \<open>send_file\<close> looks at the disk.
\<close>

lemma download_file_cases:
  "download_file s file_id now = (s', r) \<Longrightarrow>
     (r = Json_error Dosya_bulunamadi 404 \<longleftrightarrow> pending_files s file_id = None) \<and>
     (pending_files s file_id = None \<longrightarrow> s' = s) \<and>
     (\<forall>e. pending_files s file_id = Some e \<longrightarrow>
        pending_files s' = (pending_files s)(file_id := None) \<and>
        transfer_history s' = transfer_history s @
          [\<lparr>tr_file_name = pf_name e, tr_device = device_name s,
            tr_transfer_time = now, tr_status = ''completed''\<rparr>] \<and>
        (\<forall>b. disk s (pf_path e) = Some b \<longrightarrow> r = File_body b (pf_name e)) \<and>
        (disk s (pf_path e) = None \<longrightarrow> r = Server_error))"
proof (cases "pending_files s file_id")
  case None
  assume "download_file s file_id now = (s', r)"
  with None have "s' = s" and "r = Json_error Dosya_bulunamadi 404"
    by (simp_all add: download_file_def)
  with None show ?thesis by simp
next
  case (Some file_info)
  assume d: "download_file s file_id now = (s', r)"
  let ?rec = "\<lparr>tr_file_name = pf_name file_info, tr_device = device_name s,
               tr_transfer_time = now, tr_status = ''completed''\<rparr>"
  from d Some have s': "s' = s\<lparr>transfer_history := transfer_history s @ [?rec],
                              pending_files := (pending_files s)(file_id := None)\<rparr>"
    and r: "r = send_file_response (disk s) (pf_path file_info) (pf_name file_info)"
    by (simp_all add: download_file_def Let_def)
  have "r \<noteq> Json_error Dosya_bulunamadi 404"
    using r by (simp add: send_file_response_def split: option.splits)
  moreover have "\<forall>b. disk s (pf_path file_info) = Some b \<longrightarrow> r = File_body b (pf_name file_info)"
    using r by (simp add: send_file_response_def)
  moreover have "disk s (pf_path file_info) = None \<longrightarrow> r = Server_error"
    using r by (simp add: send_file_response_def)
  ultimately show ?thesis using Some s' by simp
qed

text \<open>
  C2. Two uploads of \<open>test.txt\<close>, then the removal of the first id, which deletes
  the file that both entries name. The second id is still pending, and the claim
  says that its download returns the stored bytes. The code appends a record with
  status \<open>completed\<close> and deletes the entry, and then answers with a server
  error: no bytes are returned.
\<close>

theorem download_after_shared_remove:
  "pending_files first_removed ''id2'' =
     Some \<lparr>pf_id = ''id2'', pf_name = ''test.txt'', pf_path = ''/home/u/Desktop/test.txt'',
           pf_size = 2, pf_upload_time = ''2024-01-01 10:00:05'', pf_status = ''pending''\<rparr> \<and>
   snd (download_file first_removed ''id2'' ''2024-01-01 10:01:00'') = Server_error \<and>
   pending_files (fst (download_file first_removed ''id2'' ''2024-01-01 10:01:00'')) ''id2'' = None \<and>
   transfer_history (fst (download_file first_removed ''id2'' ''2024-01-01 10:01:00'')) =
     [\<lparr>tr_file_name = ''test.txt'', tr_device = ''host'',
       tr_transfer_time = ''2024-01-01 10:01:00'', tr_status = ''completed''\<rparr>]"
  by (simp add: download_file_def send_file_response_def Let_def first_removed_facts
      two_uploads_entries)

text \<open>
  The shared path shows without a removal too: after the two uploads, the
  download of the first id returns the two bytes of the second upload, while the
  entry records eleven.
\<close>

lemma download_returns_other_upload:
  "map_option pf_size (pending_files two_uploads ''id1'') = Some 11 \<and>
   snd (download_file two_uploads ''id1'' ''2024-01-01 10:01:00'') = File_body [1, 2] ''test.txt''"
  by (simp add: download_file_def send_file_response_def Let_def two_uploads_entries
      one_upload_entry hello_def two_uploads_def upload_file_def one_upload_def fresh_app_def
      init_app_def temp_path_def path_join_def)

text \<open>
  C10. A download leaves the disk as it was: the bytes at the storage path of the
  entry are still there afterwards. An upload does not delete a file either.
\<close>

theorem download_file_keeps_disk:
  "disk (fst (download_file s file_id now)) = disk s \<and>
   (\<forall>p. disk s p \<noteq> None \<longrightarrow> disk (fst (upload_file s req_files fid t ok)) p \<noteq> None)"
  by (auto simp: download_file_def upload_file_def Let_def split: option.splits prod.splits)

theorem download_file_keeps_disk_witness:
  "disk one_upload ''/home/u/Desktop/test.txt'' = Some hello \<and>
   pending_files (fst (download_file one_upload ''id1'' ''2024-01-01 10:01:00'')) ''id1'' = None \<and>
   disk (fst (download_file one_upload ''id1'' ''2024-01-01 10:01:00''))
     ''/home/u/Desktop/test.txt'' = Some hello \<and>
   disk two_uploads ''/home/u/Desktop/test.txt'' \<noteq> None"
proof -
  have g: "pending_files (fst (download_file one_upload ''id1'' ''2024-01-01 10:01:00'')) ''id1'' = None"
    by (simp add: download_file_def Let_def one_upload_entry)
  show ?thesis
    using download_file_keeps_disk [of one_upload "''id1''" "''2024-01-01 10:01:00''"
        "[''file'' \<mapsto> (''test.txt'', [1, 2])]" "''id2''" "''2024-01-01 10:00:05''" True]
      one_upload_disk g
    by (simp add: two_uploads_def)
qed

subsection \<open>Remove\<close>

text \<open>
  C5. \<open>DELETE /api/remove/<id>\<close> never changes the history. It answers 404 exactly
  when the id is not pending, and then changes nothing. When it answers success,
  the entry is gone from the pending table, no file is left at the storage path
  that the entry had, and a download or a second remove of the same id right
  after it answers 404 and still leaves the history alone.
\<close>

theorem remove_file_contract:
  "remove_file s file_id remove_ok = (s', r) \<Longrightarrow>
     transfer_history s' = transfer_history s \<and>
     (r = Json_error Dosya_bulunamadi 404 \<longleftrightarrow> pending_files s file_id = None) \<and>
     (pending_files s file_id = None \<longrightarrow> s' = s) \<and>
     (r = Remove_success \<longrightarrow>
        (\<exists>e. pending_files s file_id = Some e \<and> disk s' (pf_path e) = None) \<and>
        pending_files s' = (pending_files s)(file_id := None) \<and>
        download_file s' file_id now' = (s', Json_error Dosya_bulunamadi 404) \<and>
        remove_file s' file_id remove_ok' = (s', Json_error Dosya_bulunamadi 404))"
proof (cases "pending_files s file_id")
  case None
  assume "remove_file s file_id remove_ok = (s', r)"
  with None have "s' = s" and "r = Json_error Dosya_bulunamadi 404"
    by (simp_all add: remove_file_def)
  with None show ?thesis by simp
next
  case (Some file_info)
  assume rm: "remove_file s file_id remove_ok = (s', r)"
  show ?thesis
  proof (cases "disk s (pf_path file_info) \<noteq> None \<and> \<not> remove_ok")
    case True
    with rm Some have "s' = s" and "r = Server_error"
      by (simp_all add: remove_file_def)
    with Some show ?thesis by simp
  next
    case False
    with rm Some have s': "s' = s\<lparr>disk := (disk s)(pf_path file_info := None),
                                    pending_files := (pending_files s)(file_id := None)\<rparr>"
      and r: "r = Remove_success"
      by (auto simp: remove_file_def Let_def)
    have gone: "pending_files s' file_id = None" using s' by simp
    have "download_file s' file_id now' = (s', Json_error Dosya_bulunamadi 404)"
      using gone by (simp add: download_file_def)
    moreover have "remove_file s' file_id remove_ok' = (s', Json_error Dosya_bulunamadi 404)"
      using gone by (simp add: remove_file_def)
    moreover have "disk s' (pf_path file_info) = None" using s' by simp
    ultimately show ?thesis using Some s' r by simp
  qed
qed

theorem remove_file_contract_witness:
  "remove_file one_upload ''id1'' True = (fst (remove_file one_upload ''id1'' True), Remove_success) \<and>
   disk one_upload ''/home/u/Desktop/test.txt'' = Some hello \<and>
   disk (fst (remove_file one_upload ''id1'' True)) ''/home/u/Desktop/test.txt'' = None \<and>
   transfer_history (fst (remove_file one_upload ''id1'' True)) = [] \<and>
   snd (download_file (fst (remove_file one_upload ''id1'' True)) ''id1'' ''2024-01-01 10:01:00'') =
     Json_error Dosya_bulunamadi 404 \<and>
   snd (remove_file (fst (remove_file one_upload ''id1'' True)) ''id1'' True) =
     Json_error Dosya_bulunamadi 404 \<and>
   remove_file fresh_app ''id1'' True = (fresh_app, Json_error Dosya_bulunamadi 404)"
proof -
  have a: "remove_file one_upload ''id1'' True =
      (fst (remove_file one_upload ''id1'' True), Remove_success)"
    by (simp add: remove_file_def Let_def one_upload_entry)
  have b: "remove_file fresh_app ''id1'' True =
      (fst (remove_file fresh_app ''id1'' True), snd (remove_file fresh_app ''id1'' True))"
    by simp
  have n: "pending_files fresh_app ''id1'' = None"
    by (simp add: fresh_app_def init_app_def)
  show ?thesis
    using a n one_upload_entry one_upload_disk one_upload_history
      remove_file_contract [OF a, of "''2024-01-01 10:01:00''" True]
      remove_file_contract [OF b, of "''2024-01-01 10:01:00''" True]
    by (auto simp: prod_eq_iff)
qed

section \<open>The discovery loop\<close>

subsection \<open>One pass\<close>

lemma discovery_iteration_returns:
  "\<exists>s' out. discovery_iteration s e = Inr (s', out) \<and> running s' = running s"
  by (auto simp: discovery_iteration_def discovery_body_def subscript_def update_device_list_def
        Let_def
      split: sum.splits received.splits payload.splits option.splits if_splits)

lemma discovery_iteration_devices:
  "discovery_iteration s e = Inr (s', out) \<Longrightarrow>
     devices s' k = (case response_entry e of
                       None \<Rightarrow> devices s k
                     | Some (k', d) \<Rightarrow> if k' = k then Some d else devices s k)"
  by (auto simp: discovery_iteration_def discovery_body_def subscript_def update_device_list_def
        response_entry_def Let_def
      split: sum.splits received.splits payload.splits option.splits if_splits)

lemma discovery_loop_returns:
  "running s \<Longrightarrow>
     \<exists>s' outs. discovery_loop s es = Inr (s', outs) \<and> length outs = length es \<and> running s'"
proof (induction es arbitrary: s)
  case Nil
  then show ?case by simp
next
  case (Cons e es)
  obtain s1 out where it: "discovery_iteration s e = Inr (s1, out)"
    and r1: "running s1 = running s"
    using discovery_iteration_returns by blast
  with Cons.prems have "running s1" by simp
  from Cons.IH [OF this] obtain s2 outs where
    "discovery_loop s1 es = Inr (s2, outs)" "length outs = length es" "running s2" by blast
  with it Cons.prems show ?case by simp
qed

lemma discovery_loop_append:
  "discovery_loop s es1 = Inr (s1, o1) \<Longrightarrow> running s1 \<Longrightarrow>
   discovery_loop s1 es2 = Inr (s2, o2) \<Longrightarrow>
   discovery_loop s (es1 @ es2) = Inr (s2, o1 @ o2)"
proof (induction es1 arbitrary: s o1)
  case Nil
  then show ?case by simp
next
  case (Cons e es1)
  show ?case
  proof (cases "running s")
    case False
    with Cons.prems show ?thesis by simp
  next
    case True
    obtain sa out where it: "discovery_iteration s e = Inr (sa, out)"
      using discovery_iteration_returns by blast
    with True Cons.prems(1) obtain outs where
      l: "discovery_loop sa es1 = Inr (s1, outs)" and o1: "o1 = out # outs"
      by (auto split: sum.splits)
    from Cons.IH [OF l Cons.prems(2) Cons.prems(3)] it True o1 show ?thesis by simp
  qed
qed

lemma discovery_loop_keeps_running:
  "running s \<Longrightarrow> discovery_loop s es = Inr (s', outs) \<Longrightarrow> running s'"
  using discovery_loop_returns [of s es] by auto

subsection \<open>The reply to a discovery request\<close>

lemma discovery_reply_keys:
  "discovery_body s e = Inr (s', Replied response addr) \<Longrightarrow>
     map fst response = [''type'', ''device_name'', ''ip''] \<and> s' = s"
  by (auto simp: discovery_body_def subscript_def update_device_list_def Let_def
      split: sum.splits received.splits payload.splits option.splits if_splits)




subsection \<open>Upsert\<close>

text \<open>
  C6. After the loop has processed any sequence of datagrams, the peer table holds
  under each key the Device of the most recently processed response with that
  key: its name, address, port and time. A key that no response of the sequence
  had holds what it held before. One key never holds more than one Device, the
  table being a dict.
\<close>

theorem discovery_loop_upserts:
  "running s \<Longrightarrow> discovery_loop s es = Inr (s', outs) \<Longrightarrow>
     devices s' k = (case latest k es of None \<Rightarrow> devices s k | Some d \<Rightarrow> Some d)"
proof (induction es arbitrary: s outs)
  case Nil
  then show ?case by (simp add: latest_def List.map_filter_simps)
next
  case (Cons e es)
  obtain s1 out where it: "discovery_iteration s e = Inr (s1, out)"
    and r1: "running s1 = running s"
    using discovery_iteration_returns by blast
  with Cons.prems obtain outs1 where l: "discovery_loop s1 es = Inr (s', outs1)"
    by (auto split: sum.splits)
  from r1 Cons.prems have "running s1" by simp
  from Cons.IH [OF this l]
  have ih: "devices s' k = (case latest k es of None \<Rightarrow> devices s1 k | Some d \<Rightarrow> Some d)" .
  from discovery_iteration_devices [OF it]
  have d1: "devices s1 k = (case response_entry e of None \<Rightarrow> devices s k
                     | Some (k', d) \<Rightarrow> if k' = k then Some d else devices s k)" .
  show ?case
    using ih d1
    by (auto simp: latest_def List.map_filter_simps split: option.splits list.splits if_splits)
qed

lemma str_int_5000: "str_int 5000 = ''5000''"
  by (simp add: str_int_def str_nat.simps digit_char_def)

lemma fresh_app_running: "running fresh_app"
  by (simp add: fresh_app_def init_app_def)

lemma two_responses_loop:
  "discovery_loop fresh_app [response_one, response_two] =
     Inr (peer_known, [Upserted ''192.168.1.7:5000'', Upserted ''192.168.1.7:5000''])"
  by (simp add: discovery_iteration_def discovery_body_def subscript_def update_device_list_def
      Let_def response_one_def response_two_def on_datagram_def str_int_5000 peer_known_def
      fresh_app_def init_app_def)

theorem discovery_loop_upserts_witness:
  "running fresh_app \<and>
   discovery_loop fresh_app [response_one, response_two] =
     Inr (peer_known, [Upserted ''192.168.1.7:5000'', Upserted ''192.168.1.7:5000'']) \<and>
   latest ''192.168.1.7:5000'' [response_one, response_two] =
     Some \<lparr>dev_name = PStr ''renamed'', dev_ip = PStr ''192.168.1.7'', dev_port = PInt 5000,
           dev_last_seen = 3\<rparr> \<and>
   devices peer_known ''192.168.1.7:5000'' =
     Some \<lparr>dev_name = PStr ''renamed'', dev_ip = PStr ''192.168.1.7'', dev_port = PInt 5000,
           dev_last_seen = 3\<rparr>"
proof -
  have l: "latest ''192.168.1.7:5000'' [response_one, response_two] =
     Some \<lparr>dev_name = PStr ''renamed'', dev_ip = PStr ''192.168.1.7'', dev_port = PInt 5000,
           dev_last_seen = 3\<rparr>"
    by (simp add: latest_def response_entry_def List.map_filter_simps response_one_def
        response_two_def on_datagram_def str_int_5000)
  show ?thesis
    using discovery_loop_upserts [OF fresh_app_running two_responses_loop, of "''192.168.1.7:5000''"]
      fresh_app_running two_responses_loop l
    by simp
qed

subsection \<open>Errors stay in their pass\<close>

text \<open>
  C7. While \<open>running\<close> is set, the loop makes one pass for every datagram that
  arrives, whatever the datagrams are, and no exception leaves it. A pass whose
  body raises (the payload is not JSON, is not a dict, lacks \<open>type\<close>, is a
  response that lacks a field, or a socket call fails) prints the exception and
  leaves the object as it was, and the loop goes on with the datagrams after it
  from that same state.
\<close>

theorem discovery_loop_survives_errors:
  "running s \<Longrightarrow>
     (\<exists>s' outs. discovery_loop s es = Inr (s', outs) \<and> length outs = length es \<and> running s') \<and>
     (\<forall>x. discovery_body s e = Inl x \<longrightarrow> discovery_iteration s e = Inr (s, Printed x)) \<and>
     (\<forall>s1 o1 x. discovery_loop s es1 = Inr (s1, o1) \<longrightarrow> discovery_body s1 e = Inl x \<longrightarrow>
        (\<exists>s2 o2. discovery_loop s1 es2 = Inr (s2, o2) \<and>
                 discovery_loop s (es1 @ e # es2) = Inr (s2, o1 @ Printed x # o2)))"
proof (intro conjI allI impI)
  assume "running s"
  then show "\<exists>s' outs. discovery_loop s es = Inr (s', outs) \<and> length outs = length es \<and> running s'"
    by (rule discovery_loop_returns)
next
  fix x
  assume "running s" and "discovery_body s e = Inl x"
  then show "discovery_iteration s e = Inr (s, Printed x)"
    by (simp add: discovery_iteration_def)
next
  fix s1 o1 x
  assume r: "running s" and l1: "discovery_loop s es1 = Inr (s1, o1)"
    and b: "discovery_body s1 e = Inl x"
  from r l1 have r1: "running s1" by (rule discovery_loop_keeps_running)
  from discovery_loop_returns [OF r1] obtain s2 o2 where
    l2: "discovery_loop s1 es2 = Inr (s2, o2)" by blast
  from r1 b l2 have "discovery_loop s1 (e # es2) = Inr (s2, Printed x # o2)"
    by (simp add: discovery_iteration_def)
  from discovery_loop_append [OF l1 r1 this] l2
  show "\<exists>s2 o2. discovery_loop s1 es2 = Inr (s2, o2) \<and>
                 discovery_loop s (es1 @ e # es2) = Inr (s2, o1 @ Printed x # o2)"
    by blast
qed

lemma malformed_datagrams_raise:
  "discovery_body s not_json = Inl Decode_error \<and>
   discovery_body s no_type = Inl (Key_error ''type'') \<and>
   discovery_body s no_port = Inl (Key_error ''port'')"
  by (simp add: discovery_body_def subscript_def Let_def not_json_def no_type_def no_port_def
      on_datagram_def)

theorem discovery_loop_survives_errors_witness:
  "running fresh_app \<and>
   discovery_body fresh_app not_json = Inl Decode_error \<and>
   discovery_body fresh_app no_type = Inl (Key_error ''type'') \<and>
   discovery_body fresh_app no_port = Inl (Key_error ''port'') \<and>
   discovery_loop fresh_app [] = Inr (fresh_app, []) \<and>
   discovery_loop fresh_app ([] @ not_json # [response_one, response_two]) =
     Inr (peer_known,
          [] @ Printed Decode_error # [Upserted ''192.168.1.7:5000'', Upserted ''192.168.1.7:5000'']) \<and>
   discovery_loop fresh_app ([] @ no_port # [response_one, response_two]) =
     Inr (peer_known,
          [] @ Printed (Key_error ''port'') #
            [Upserted ''192.168.1.7:5000'', Upserted ''192.168.1.7:5000''])"
proof -
  have e: "discovery_loop fresh_app [] = Inr (fresh_app, [])" by simp
  show ?thesis
    using discovery_loop_survives_errors [OF fresh_app_running, of "[]" not_json "[]"
        "[response_one, response_two]"]
      discovery_loop_survives_errors [OF fresh_app_running, of "[]" no_port "[]"
        "[response_one, response_two]"]
      malformed_datagrams_raise [of fresh_app] fresh_app_running two_responses_loop e
    by auto
qed

section \<open>Socket transfer\<close>

subsection \<open>Receiving\<close>

lemma recv_splits:
  "0 < n \<Longrightarrow> fst (recv conn n) @ concat (snd (recv conn n)) = concat conn \<and>
     length (fst (recv conn n)) \<le> n \<and>
     (fst (recv conn n) = [] \<longrightarrow> concat conn = [])"
  by (induction conn n rule: recv.induct) auto

text \<open>
  The loop writes the first \<open>filesize\<close> bytes that the connection delivers, or
  all of them when the peer closes before.
\<close>

lemma receive_body_takes:
  "snd (receive_body conn fsize received written) =
     written @ take (nat (fsize - received)) (concat conn)"
proof (induction conn fsize received written rule: receive_body.induct)
  case (1 conn fsize received written)
  show ?case
  proof (cases "received < fsize")
    case False
    then show ?thesis by (subst receive_body.simps) simp
  next
    case True
    let ?n = "nat (min 8192 (fsize - received))"
    let ?chunk = "fst (recv conn ?n)"
    have pos: "0 < ?n" using True by simp
    note rs = recv_splits [OF pos, of conn]
    show ?thesis
    proof (cases "?chunk = []")
      case empty: True
      with rs have "concat conn = []" by simp
      with True empty show ?thesis by (subst receive_body.simps) (simp add: Let_def)
    next
      case False
      have "length ?chunk \<le> ?n" using rs by blast
      also have "?n \<le> nat (fsize - received)" by simp
      finally have le: "length ?chunk \<le> nat (fsize - received)" .
      have ih: "snd (receive_body (snd (recv conn ?n)) fsize (received + int (length ?chunk))
                  (written @ ?chunk)) =
            (written @ ?chunk) @
              take (nat (fsize - (received + int (length ?chunk)))) (concat (snd (recv conn ?n)))"
        using "1.IH" [OF True refl False] .
      have cc: "concat conn = ?chunk @ concat (snd (recv conn ?n))"
        using rs by simp
      have tk: "take (nat (fsize - received)) (concat conn) =
            ?chunk @ take (nat (fsize - (received + int (length ?chunk))))
                       (concat (snd (recv conn ?n)))"
      proof -
        have "nat (fsize - received) - length ?chunk =
              nat (fsize - (received + int (length ?chunk)))"
          using le by linarith
        with le show ?thesis by (subst cc) simp
      qed
      show ?thesis
        using True False ih tk by (subst receive_body.simps) (simp add: Let_def)
    qed
  qed
qed

text \<open>
  An accepted transfer whose file could be opened is reported as received,
  whatever the connection delivered; the file holds the bytes that came.
\<close>

lemma handle_file_transfer_reports_reception:
  "shown (handle_file_transfer s (Inr h) True True conn) =
     [Incoming_file (filename h) (filesize h),
      File_received (downloads_file (home s) (filename h))] \<and>
   disk (after (handle_file_transfer s (Inr h) True True conn))
     (downloads_file (home s) (filename h)) =
     Some (take (nat (filesize h)) (concat conn)) \<and>
   conn_closed (handle_file_transfer s (Inr h) True True conn)"
  by (simp add: handle_file_transfer_def Let_def receive_body_takes)

text \<open>
  C1. A header declares five bytes, the peer delivers three and closes. The claim
  asks for a failure report and no report of success; the handler shows no error
  and reports the file as received, on both platforms, and the file holds three
  bytes.
\<close>

theorem short_transfer_reported_as_received:
  "shown (handle_file_transfer fresh_app (Inr \<lparr>filename = ''a.txt'', filesize = 5\<rparr>) True True
            [[1, 2, 3]]) =
     [Incoming_file ''a.txt'' 5, File_received ''/home/u/Downloads/a.txt''] \<and>
   shown (handle_file_transfer_mac fresh_app (Inr \<lparr>filename = ''a.txt'', filesize = 5\<rparr>) True
            [[1, 2, 3]]) =
     [Incoming_file ''a.txt'' 5, File_received ''/home/u/Downloads/a.txt''] \<and>
   disk (after (handle_file_transfer fresh_app (Inr \<lparr>filename = ''a.txt'', filesize = 5\<rparr>) True
                  True [[1, 2, 3]]))
     ''/home/u/Downloads/a.txt'' = Some [1, 2, 3]"
  by (simp add: handle_file_transfer_mac_def handle_file_transfer_def Let_def receive_body.simps
      downloads_file_def pure_posix_str_def path_join_def fresh_app_def init_app_def)

subsection \<open>Sending\<close>



lemma length_progress_calls: "length (progress_calls n total_size cs) = length cs"
  by (induction cs arbitrary: n) auto

text \<open>
  The call after the piece with index \<open>i\<close> reports the bytes of the pieces up to
  it, out of the size of the file.
\<close>

lemma progress_calls_nth:
  "i < length cs \<Longrightarrow>
     progress_calls n total_size cs ! i =
       Set_fraction (n + length (concat (take (Suc i) cs))) total_size"
proof (induction cs arbitrary: n i)
  case Nil
  then show ?case by simp
next
  case (Cons c cs)
  show ?case
  proof (cases i)
    case 0
    then show ?thesis by simp
  next
    case (Suc j)
    with Cons.prems have "j < length cs" by simp
    from Cons.IH [OF this, of "n + length c"] Suc show ?thesis by (simp add: add.assoc)
  qed
qed









subsection \<open>Runs that the streaming statement leaves out\<close>

text \<open>
  A \<open>send\<close> that takes one byte of the three: the code counts the whole chunk as
  sent and reports the file as sent.
\<close>

lemma send_file_short_send:
  "s_wire (snd (send_file Windows sender_app ''/home/u/a.txt'' ''a.txt'' short_second_send)) =
     [Whole (Header \<lparr>filename = ''a.txt'', filesize = 3\<rparr>), Prefix (Chunk [1, 2, 3]) 1] \<and>
   s_ui (snd (send_file Windows sender_app ''/home/u/a.txt'' ''a.txt'' short_second_send)) =
     [File_sent]"
  by (simp add: send_file_def send_try_def path_status_def sock_send_def send_body.simps Let_def
      short_second_send_def calm_def sender_app_def init_app_def)

text \<open>
  \<open>windows.py\<close> with a progress variable and no root window: the update after
  the first piece raises, and the handler shows the exception.
\<close>

lemma send_file_missing_window:
  "s_ui (snd (send_file Windows sender_without_window ''/home/u/a.txt'' ''a.txt'' calm)) =
     [Send_failed Attribute_error] \<and>
   s_ui (snd (send_file MacOS sender_without_window ''/home/u/a.txt'' ''a.txt'' calm)) =
     [File_sent]"
  by (simp add: send_file_def send_try_def path_status_def sock_send_def send_body.simps Let_def
      calm_def sender_without_window_def sender_app_def init_app_def)

text \<open>A path that exists and cannot be opened: the header goes out, then \<open>open\<close> raises.\<close>

lemma send_file_directory:
  "s_wire (snd (send_file pf fresh_app ''/home/u'' ''u'' (calm\<lparr>directory := Some 4096\<rparr>))) =
     [Whole (Header \<lparr>filename = ''u'', filesize = 4096\<rparr>)] \<and>
   s_ui (snd (send_file pf fresh_app ''/home/u'' ''u'' (calm\<lparr>directory := Some 4096\<rparr>))) =
     [Send_failed OS_error] \<and>
   s_closed (snd (send_file pf fresh_app ''/home/u'' ''u'' (calm\<lparr>directory := Some 4096\<rparr>)))"
  by (simp add: send_file_def send_try_def path_status_def sock_send_def Let_def
      calm_def fresh_app_def init_app_def)

end
